theory Spec2Isabelle
  imports Complex_Main
begin

section \<open>JavaScript values and errors\<close>

text \<open>
  Manager.ts receives the backend response (\<open>res: any\<close>), the gateway event
  (\<open>data: any\<close>) and the requester as untyped JavaScript values. They are modelled
  as the values JSON can carry plus \<open>undefined\<close>. A number is the rational its
  literal denotes; Manager.ts only tests numbers for truthiness and copies them. An
  object is an association list read with \<open>map_of\<close>.
\<close>

datatype jsval =
    JUndefined
  | JNull
  | JBool bool
  | JNum rat
  | JStr string
  | JArr "jsval list"
  | JObj "(string \<times> jsval) list"

text \<open>
  What a method can throw: a \<open>TypeError\<close> for a property read on \<open>undefined\<close> or
  \<open>null\<close> (or a call of something that is not a function), and the rejection of a
  backend request.
\<close>

datatype error = TypeError | RequestError

definition and_then :: "error + 'a \<Rightarrow> ('a \<Rightarrow> error + 'b) \<Rightarrow> error + 'b" where
  "and_then r k = (case r of Inl e \<Rightarrow> Inl e | Inr v \<Rightarrow> k v)"

text \<open>JavaScript truthiness (\<open>!v\<close>, \<open>if (v)\<close>, \<open>v || w\<close>).\<close>

fun truthy :: "jsval \<Rightarrow> bool" where
  "truthy JUndefined = False"
| "truthy JNull = False"
| "truthy (JBool b) = b"
| "truthy (JNum x) = (x \<noteq> 0)"
| "truthy (JStr s) = (s \<noteq> [])"
| "truthy (JArr xs) = True"
| "truthy (JObj kvs) = True"

text \<open>\<open>a || b\<close>: the left operand when it is truthy, else the right one.\<close>

definition js_or :: "jsval \<Rightarrow> jsval \<Rightarrow> jsval" where
  "js_or a b = (if truthy a then a else b)"

text \<open>
  \<open>v === "s"\<close> against a string literal, as a JavaScript boolean: true exactly for
  the string \<open>s\<close> itself.
\<close>

definition strict_eq_str :: "jsval \<Rightarrow> string \<Rightarrow> jsval" where
  "strict_eq_str v s = JBool (v = JStr s)"

text \<open>
  The property read \<open>v.k\<close> for the property names Manager.ts reads (none of them an
  index or a name found on a prototype): it throws on \<open>undefined\<close> and \<open>null\<close>,
  arrays and strings have \<open>length\<close>, and a property that is not there reads as
  \<open>undefined\<close>.
\<close>

fun get_prop :: "jsval \<Rightarrow> string \<Rightarrow> error + jsval" where
  "get_prop JUndefined k = Inl TypeError"
| "get_prop JNull k = Inl TypeError"
| "get_prop (JBool b) k = Inr JUndefined"
| "get_prop (JNum x) k = Inr JUndefined"
| "get_prop (JStr s) k =
     Inr (if k = ''length'' then JNum (of_nat (length s)) else JUndefined)"
| "get_prop (JArr xs) k =
     Inr (if k = ''length'' then JNum (of_nat (length xs)) else JUndefined)"
| "get_prop (JObj kvs) k =
     Inr (case map_of kvs k of None \<Rightarrow> JUndefined | Some v \<Rightarrow> v)"

text \<open>The element read \<open>v[0]\<close>.\<close>

fun get_first :: "jsval \<Rightarrow> error + jsval" where
  "get_first JUndefined = Inl TypeError"
| "get_first JNull = Inl TypeError"
| "get_first (JBool b) = Inr JUndefined"
| "get_first (JNum x) = Inr JUndefined"
| "get_first (JStr s) = Inr (case s of [] \<Rightarrow> JUndefined | c # cs \<Rightarrow> JStr [c])"
| "get_first (JArr xs) = Inr (case xs of [] \<Rightarrow> JUndefined | x # ys \<Rightarrow> x)"
| "get_first (JObj kvs) =
     Inr (case map_of kvs ''0'' of None \<Rightarrow> JUndefined | Some v \<Rightarrow> v)"

text \<open>
  \<open>xs.map(f)\<close> where \<open>f\<close> may throw: the first element on which \<open>f\<close> throws ends
  the call.
\<close>

primrec map_throwing :: "('a \<Rightarrow> error + 'b) \<Rightarrow> 'a list \<Rightarrow> error + 'b list" where
  "map_throwing f [] = Inr []"
| "map_throwing f (x # xs) =
     and_then (f x) (\<lambda>y. and_then (map_throwing f xs) (\<lambda>ys. Inr (y # ys)))"

section \<open>Search results\<close>

datatype SearchResultType = NO_RESULT | SEARCH_RESULT | PLAYLIST

record PlaylistInfo =
  title :: jsval
  playlist_id :: jsval
  url :: jsval
  author :: jsval
  extractor :: jsval

text \<open>
  \<open>SearchResult\<close>: \<open>playlist\<close> is \<open>None\<close> where the object literal has no such key.
  \<open>tracks\<close> is a JavaScript value because the \<open>SEARCH_RESULT\<close> branch stores the
  backend's own \<open>results\<close> value there.
\<close>

record SearchResult =
  type :: SearchResultType
  playlist :: "PlaylistInfo option"
  tracks :: jsval
  requester :: jsval

text \<open>
  \<open>Manager.buildTrackData\<close>: the seven fields are read from \<open>data\<close> (each read
  throws when \<open>data\<close> is \<open>undefined\<close> or \<open>null\<close>) and \<open>requested_by\<close> is set to
  the requester.
\<close>

definition buildTrackData :: "jsval \<Rightarrow> jsval \<Rightarrow> error + jsval" where
  "buildTrackData data rq =
     and_then (get_prop data ''url'') (\<lambda>u.
     and_then (get_prop data ''title'') (\<lambda>t.
     and_then (get_prop data ''thumbnail'') (\<lambda>th.
     and_then (get_prop data ''duration'') (\<lambda>d.
     and_then (get_prop data ''author'') (\<lambda>a.
     and_then (get_prop data ''created_at'') (\<lambda>c.
     and_then (get_prop data ''extractor'') (\<lambda>e.
       Inr (JObj [(''url'', u), (''title'', t), (''thumbnail'', th), (''duration'', d),
                  (''author'', a), (''created_at'', c), (''extractor'', e),
                  (''requested_by'', rq)]))))))))"

text \<open>
  The \<open>else\<close> branch of \<open>Manager.resolveTrackData\<close> (lines 144 to 158): the playlist
  fields are read from \<open>res.results[0]\<close>, and \<open>res.results[0].tracks\<close> must be an
  array, since \<open>map\<close> is called on it.
\<close>

definition playlist_branch :: "jsval \<Rightarrow> jsval \<Rightarrow> error + SearchResult" where
  "playlist_branch res rq =
     and_then (get_prop res ''results'') (\<lambda>results.
     and_then (get_first results) (\<lambda>r0.
     and_then (get_prop r0 ''title'') (\<lambda>t.
     and_then (get_prop r0 ''id'') (\<lambda>i.
     and_then (get_prop r0 ''url'') (\<lambda>u.
     and_then (get_prop r0 ''author'') (\<lambda>a.
     and_then (get_prop r0 ''extractor'') (\<lambda>e.
     and_then (get_prop r0 ''tracks'') (\<lambda>ts.
     and_then (case ts of JArr xs \<Rightarrow> map_throwing (\<lambda>track. buildTrackData track rq) xs
               | _ \<Rightarrow> Inl TypeError) (\<lambda>built.
       Inr \<lparr>type = PLAYLIST,
            playlist = Some \<lparr>title = t, playlist_id = i, url = u, author = a,
                             extractor = e\<rparr>,
            tracks = JArr built,
            requester = rq\<rparr>)))))))))"

text \<open>
  \<open>Manager.resolveTrackData\<close>. The second test is the source's
  \<open>res.identifier === "ytsearch" || "scsearch"\<close>: \<open>===\<close> binds tighter than \<open>||\<close>,
  so the condition is the truthiness of \<open>(res.identifier === "ytsearch") || "scsearch"\<close>.
\<close>

definition resolveTrackData :: "jsval \<Rightarrow> jsval \<Rightarrow> error + SearchResult" where
  "resolveTrackData res rq =
     and_then (get_prop res ''results'') (\<lambda>results.
     and_then (get_prop results ''length'') (\<lambda>len.
       if \<not> truthy len then
         Inr \<lparr>type = NO_RESULT, playlist = None, tracks = JArr [], requester = rq\<rparr>
       else
         and_then (get_prop res ''identifier'') (\<lambda>ident.
           if truthy (js_or (strict_eq_str ident ''ytsearch'') (JStr ''scsearch'')) then
             Inr \<lparr>type = SEARCH_RESULT, playlist = None, tracks = results,
                  requester = rq\<rparr>
           else playlist_branch res rq)))"

section \<open>The node connection\<close>

type_synonym Snowflake = string

text \<open>
  Modelled from the spec: the type \<open>NodeOptions\<close> is declared in Static/Interfaces,
  which is not among the sources. Its fields are the spec's node connection
  parameters (host, port, shared secret, logical identifier), each optional.
\<close>

record NodeOptions =
  "identifier" :: "string option"
  host :: "string option"
  port :: "nat option"
  password :: "string option"

text \<open>
  Modelled from the spec: the class \<open>Node\<close> (structures/Node, not among the sources).
  The spec gives it the connection parameters and a live socket handle that is
  nullable until connected. The socket keeps the frames written to it, in order, and
  the node counts the calls of \<open>connect\<close>, so that writes and connection attempts can
  be observed.
\<close>

record Socket =
  sent :: "string list"

record Node =
  options :: NodeOptions
  socket :: "Socket option"
  connect_calls :: nat

text \<open>
  Modelled from the spec: \<open>Node.connect\<close> opens the persistent socket and does not
  throw back to its caller.
\<close>

definition Node_connect :: "Node \<Rightarrow> Node" where
  "Node_connect n = n\<lparr>socket := Some \<lparr>sent = []\<rparr>, connect_calls := Suc (connect_calls n)\<rparr>"

section \<open>The manager\<close>

text \<open>
  An optional property of an options object: the key is not there, it is there with
  the value \<open>undefined\<close>, or it is there with a value. Object spread tells the first
  two apart.
\<close>

datatype 'a property = Omitted | Undefined_value | Given 'a

text \<open>
  \<open>ManagerOptions\<close>, with the two fields its documentation in Manager.ts lists.
  The \<open>send\<close> callback of the usage example is never read by Manager.ts and is left
  out.
\<close>

record ManagerOptions =
  node :: "NodeOptions property"
  clientID :: "Snowflake option"

text \<open>
  Modelled from the spec: \<open>PlayerOptions\<close> (Static/Interfaces) and the class
  \<open>Player\<close> (structures/Player) are not among the sources. A session has a guild ID
  and a voice-channel reference; a player keeps the options it was built from.
\<close>

record PlayerOptions =
  guild :: Snowflake
  voiceChannel :: Snowflake

record Player =
  player_options :: PlayerOptions

text \<open>
  \<open>Player\<close> objects live in a store and are named by their address, so that "the same
  instance" is equality of addresses. The store is the field \<open>player_objects\<close> of the
  state; the other fields are those of the class \<open>Manager\<close>.
\<close>

type_synonym ref = nat

record Manager =
  players :: "Snowflake \<rightharpoonup> ref"
  node :: "Node option"
  options :: ManagerOptions
  initiated :: bool
  access_token :: "string option"
  player_objects :: "Player list"

text \<open>
  Modelled from the spec: the constructor of \<open>Node\<close>. Manager.ts never assigns
  \<open>this.node\<close>; the node reaches the manager through the static registration
  \<open>Node.initStaticManager(this)\<close>, and its connection is not opened before \<open>init\<close>.
\<close>

definition Node_new :: "NodeOptions \<Rightarrow> Manager \<Rightarrow> Manager" where
  "Node_new opts this =
     this\<lparr>Manager.node := Some \<lparr>Node.options = opts, socket = None, connect_calls = 0\<rparr>\<rparr>"

definition default_node :: NodeOptions where
  "default_node =
     \<lparr>NodeOptions.identifier = Some ''default'', host = Some ''localhost'',
      port = None, password = None\<rparr>"

text \<open>
  The object literal \<open>{ node: {identifier: "default", host: "localhost"}, ...options }\<close>:
  every own property of \<open>options\<close> replaces the default of the same key, whole.
\<close>

definition spread_defaults :: "ManagerOptions \<Rightarrow> ManagerOptions" where
  "spread_defaults opts =
     opts\<lparr>ManagerOptions.node :=
       (case ManagerOptions.node opts of
          Omitted \<Rightarrow> Given default_node
        | Undefined_value \<Rightarrow> Undefined_value
        | Given n \<Rightarrow> Given n)\<rparr>"

text \<open>
  The constructor of \<open>Manager\<close>. \<open>players\<close> starts empty, \<open>initiated\<close> false,
  and \<open>node\<close> and \<open>access_token\<close> are declared without a value. The two static
  registrations, \<open>Player.init(this)\<close> and \<open>Node.initStaticManager(this)\<close>, write
  to the classes \<open>Player\<close> and \<open>Node\<close>, not to the manager. A \<open>Node\<close> is built
  only when the stored \<open>node\<close> option is truthy. The listeners of the inherited
  \<open>EventEmitter\<close> are not part of the state: no method of Manager.ts reads or
  emits them.
\<close>

definition Manager_new :: "ManagerOptions \<Rightarrow> Manager" where
  "Manager_new opts =
     (let this = \<lparr>players = Map.empty, Manager.node = None,
                  Manager.options = spread_defaults opts, initiated = False,
                  access_token = None, player_objects = []\<rparr>
      in case ManagerOptions.node (Manager.options this) of
           Given n \<Rightarrow> Node_new n this
         | _ \<Rightarrow> this)"

text \<open>\<open>this.options.node.identifier\<close> as stored by the constructor, when there is one.\<close>

definition stored_node_identifier :: "Manager \<Rightarrow> string option" where
  "stored_node_identifier this =
     (case ManagerOptions.node (Manager.options this) of
        Given n \<Rightarrow> NodeOptions.identifier n
      | _ \<Rightarrow> None)"

definition stored_node_host :: "Manager \<Rightarrow> string option" where
  "stored_node_host this =
     (case ManagerOptions.node (Manager.options this) of
        Given n \<Rightarrow> host n
      | _ \<Rightarrow> None)"

subsection \<open>init\<close>

text \<open>
  The argument of \<open>init\<close> is \<open>None\<close> for \<open>undefined\<close>; it is falsy when it is
  \<open>undefined\<close> or the empty string.
\<close>

definition truthy_id :: "Snowflake option \<Rightarrow> bool" where
  "truthy_id c = (case c of None \<Rightarrow> False | Some s \<Rightarrow> s \<noteq> [])"

text \<open>
  \<open>Manager.init\<close>. A method returns its result, or the error it throws, together
  with the state it leaves: what was assigned before a throw stays assigned.
  \<open>this.node.connect()\<close> throws a \<open>TypeError\<close> when \<open>this.node\<close> is \<open>undefined\<close>.
\<close>

definition init :: "Snowflake option \<Rightarrow> Manager \<Rightarrow> (error + unit) \<times> Manager" where
  "init c this =
     (if \<not> initiated this then
        (let this1 = (if truthy_id c
                      then this\<lparr>Manager.options := (Manager.options this)\<lparr>clientID := c\<rparr>\<rparr>
                      else this)
         in case Manager.node this1 of
              None \<Rightarrow> (Inl TypeError, this1)
            | Some n \<Rightarrow>
                (Inr (), this1\<lparr>Manager.node := Some (Node_connect n), initiated := True\<rparr>))
      else (Inr (), this))"

text \<open>
  A sequence of \<open>init\<close> calls on one manager, whatever each call returns or throws.
\<close>

primrec init_all :: "Snowflake option list \<Rightarrow> Manager \<Rightarrow> Manager" where
  "init_all [] this = this"
| "init_all (c # cs) this = init_all cs (snd (init c this))"

text \<open>How often \<open>connect\<close> has been called on the manager's node.\<close>

definition connects :: "Manager \<Rightarrow> nat" where
  "connects this = (case Manager.node this of None \<Rightarrow> 0 | Some n \<Rightarrow> connect_calls n)"

subsection \<open>search\<close>

record SearchQuery =
  query :: string
  "identifier" :: "string option"

text \<open>
  The request path of \<open>Manager.search\<close>. \<open>encodeURIComponent\<close> is the platform's and
  is a parameter.
\<close>

definition search_path :: "(string \<Rightarrow> string) \<Rightarrow> SearchQuery \<Rightarrow> string" where
  "search_path encodeURIComponent q =
     ''api/tracks/search?query='' @ encodeURIComponent (query q) @ ''&identifier='' @
     (case SearchQuery.identifier q of
        None \<Rightarrow> ''ytsearch''
      | Some i \<Rightarrow> if i \<noteq> [] then i else ''ytsearch'')"

text \<open>
  \<open>Manager.search\<close>. \<open>makeRequest\<close> stands for \<open>this.node.makeRequest\<close> followed by
  \<open>res.json()\<close>: the parsed body, or the rejection. It is a parameter, since
  structures/Node is not among the sources.
\<close>

definition search ::
  "(Node \<Rightarrow> string \<Rightarrow> string \<Rightarrow> error + jsval) \<Rightarrow> (string \<Rightarrow> string) \<Rightarrow>
   SearchQuery \<Rightarrow> jsval \<Rightarrow> Manager \<Rightarrow> error + SearchResult" where
  "search makeRequest encodeURIComponent q rq this =
     (case Manager.node this of
        None \<Rightarrow> Inl TypeError
      | Some n \<Rightarrow>
          and_then (makeRequest n ''GET'' (search_path encodeURIComponent q))
            (\<lambda>response. resolveTrackData response rq))"

subsection \<open>create and get\<close>

text \<open>
  \<open>Manager.create\<close>. \<open>new Player(options)\<close> is the parameter \<open>newPlayer\<close>: it
  returns the address of the new object, or throws, and leaves a state.
\<close>

definition create ::
  "(PlayerOptions \<Rightarrow> Manager \<Rightarrow> (error + ref) \<times> Manager) \<Rightarrow>
   PlayerOptions \<Rightarrow> Manager \<Rightarrow> (error + ref) \<times> Manager" where
  "create newPlayer opts this =
     (case players this (guild opts) of
        Some p \<Rightarrow> (Inr p, this)
      | None \<Rightarrow> newPlayer opts this)"

definition get :: "Snowflake \<Rightarrow> Manager \<Rightarrow> ref option" where
  "get g this = players this g"

text \<open>
  Modelled from the spec: the constructor of \<open>Player\<close> (structures/Player is not
  among the sources). The spec's get-or-create constructs a new session from the
  options, inserts it keyed by guild ID, and returns it; \<open>create\<close> itself inserts
  nothing, so the insertion is the constructor's.
\<close>

definition Player_new :: "PlayerOptions \<Rightarrow> Manager \<Rightarrow> (error + ref) \<times> Manager" where
  "Player_new opts this =
     (Inr (length (player_objects this)),
      this\<lparr>player_objects := player_objects this @ [\<lparr>player_options = opts\<rparr>],
           players := (players this)(guild opts \<mapsto> length (player_objects this))\<rparr>)"

text \<open>
  A constructor that allocates the object and registers it nowhere, to tell what
  \<open>create\<close> does from what the constructor does.
\<close>

definition Player_unregistered :: "PlayerOptions \<Rightarrow> Manager \<Rightarrow> (error + ref) \<times> Manager" where
  "Player_unregistered opts this =
     (Inr (length (player_objects this)),
      this\<lparr>player_objects := player_objects this @ [\<lparr>player_options = opts\<rparr>]\<rparr>)"

subsection \<open>updateVoiceState\<close>

text \<open>\<open>["s1", "s2"].includes(v)\<close> for an array of string literals.\<close>

definition array_includes :: "string list \<Rightarrow> jsval \<Rightarrow> bool" where
  "array_includes xs v = (v \<in> set (map JStr xs))"

text \<open>
  \<open>this.node.socket.send(payload)\<close>: a \<open>TypeError\<close> when \<open>this.node\<close> or its socket
  is not there, else one more frame on the socket.
\<close>

definition socket_send :: "string \<Rightarrow> Manager \<Rightarrow> (error + unit) \<times> Manager" where
  "socket_send payload this =
     (case Manager.node this of
        None \<Rightarrow> (Inl TypeError, this)
      | Some n \<Rightarrow>
          (case socket n of
             None \<Rightarrow> (Inl TypeError, this)
           | Some s \<Rightarrow>
               (Inr (),
                this\<lparr>Manager.node := Some (n\<lparr>socket := Some (s\<lparr>sent := sent s @ [payload]\<rparr>)\<rparr>)\<rparr>)))"

text \<open>
  \<open>Manager.updateVoiceState\<close>. \<open>JSON.stringify\<close> is the platform's and is the
  parameter \<open>stringify\<close>.
\<close>

definition updateVoiceState ::
  "(jsval \<Rightarrow> string) \<Rightarrow> jsval \<Rightarrow> Manager \<Rightarrow> (error + unit) \<times> Manager" where
  "updateVoiceState stringify data this =
     (if \<not> truthy data then (Inr (), this)
      else
        (case get_prop data ''t'' of
           Inl e \<Rightarrow> (Inl e, this)
         | Inr t \<Rightarrow>
             if \<not> array_includes [''VOICE_SERVER_UPDATE'', ''VOICE_STATE_UPDATE'']
                    (js_or t (JStr []))
             then (Inr (), this)
             else
               (case (if t = JStr ''VOICE_SERVER_UPDATE''
                      then socket_send (stringify data) this
                      else (Inr (), this)) of
                  (Inl e, this1) \<Rightarrow> (Inl e, this1)
                | (Inr u, this1) \<Rightarrow>
                    if t = JStr ''VOICE_STATE_UPDATE''
                    then socket_send (stringify data) this1
                    else (Inr (), this1))))"

text \<open>All the frames written to the node's socket so far.\<close>

definition frames_sent :: "Manager \<Rightarrow> string list" where
  "frames_sent this =
     (case Manager.node this of
        None \<Rightarrow> []
      | Some n \<Rightarrow> (case socket n of None \<Rightarrow> [] | Some s \<Rightarrow> sent s))"

section \<open>Example inputs\<close>

text \<open>
  A playlist-shaped backend response: an identifier that is neither \<open>ytsearch\<close> nor
  \<open>scsearch\<close>, and one result entry that carries two nested tracks.
\<close>

definition playlist_response :: jsval where
  "playlist_response =
     JObj [(''identifier'', JStr ''ytplaylist''),
           (''results'',
            JArr [JObj [(''title'', JStr ''Mix''), (''id'', JStr ''PL1''),
                        (''url'', JStr ''https://example.org/list/PL1''),
                        (''author'', JStr ''someone''), (''extractor'', JStr ''youtube''),
                        (''tracks'',
                         JArr [JObj [(''url'', JStr ''u1''), (''title'', JStr ''t1'')],
                               JObj [(''url'', JStr ''u2''), (''title'', JStr ''t2'')]])]])]"

text \<open>The node options of the example in the class documentation: no identifier.\<close>

definition documented_node :: NodeOptions where
  "documented_node =
     \<lparr>NodeOptions.identifier = None, host = Some ''localhost'', port = Some 3000,
      password = Some ''MySecurePassword''\<rparr>"

text \<open>Gateway events: one that is forwarded and one that is not.\<close>

definition voice_state_event :: jsval where
  "voice_state_event =
     JObj [(''t'', JStr ''VOICE_STATE_UPDATE''),
           (''d'', JObj [(''guild_id'', JStr ''g1''), (''channel_id'', JStr ''v1'')])]"

definition guild_create_event :: jsval where
  "guild_create_event =
     JObj [(''t'', JStr ''GUILD_CREATE''), (''d'', JObj [(''id'', JStr ''g1'')])]"

text \<open>A manager built with the default node and initiated once.\<close>

definition connected_manager :: Manager where
  "connected_manager =
     snd (init (Some ''42'') (Manager_new \<lparr>ManagerOptions.node = Omitted, clientID = None\<rparr>))"

section \<open>Search: resolveTrackData and buildTrackData\<close>

lemma and_then_Inr: "and_then (Inr v) k = k v"
  by (simp add: and_then_def)

lemma and_then_eq_Inr:
  "and_then r k = Inr y \<longleftrightarrow> (\<exists>v. r = Inr v \<and> k v = Inr y)"
  by (cases r) (simp_all add: and_then_def)

text \<open>
  The test that chooses between the flat branch and the playlist branch holds for
  every identifier: its right operand is a non-empty string.
\<close>

lemma branch_test_always_true:
  "truthy (js_or (strict_eq_str ident ''ytsearch'') (JStr ''scsearch''))"
  by (simp add: js_or_def strict_eq_str_def)

lemma resolveTrackData_never_PLAYLIST:
  "resolveTrackData res rq = Inr r \<Longrightarrow> type r \<noteq> PLAYLIST"
  unfolding resolveTrackData_def
  by (auto simp: and_then_def branch_test_always_true split: sum.splits if_splits)

lemma map_throwing_length:
  "map_throwing f xs = Inr ys \<Longrightarrow> length ys = length xs"
  by (induction xs arbitrary: ys) (auto simp: and_then_eq_Inr)

lemma map_throwing_elements:
  "map_throwing f xs = Inr ys \<Longrightarrow> y \<in> set ys \<Longrightarrow> \<exists>x \<in> set xs. f x = Inr y"
  by (induction xs arbitrary: ys) (auto simp: and_then_eq_Inr)

lemma buildTrackData_requested_by:
  "buildTrackData data rq = Inr b \<Longrightarrow> get_prop b ''requested_by'' = Inr rq"
  by (auto simp: buildTrackData_def and_then_eq_Inr)

text \<open>
  The playlist branch, were it reached, would do what is expected of a playlist
  result: type \<open>PLAYLIST\<close>, as many tracks as the nested array has, each with the
  requester attached.
\<close>

lemma playlist_branch_result:
  assumes "playlist_branch res rq = Inr r"
  shows "type r = PLAYLIST \<and> requester r = rq \<and>
         (\<exists>results r0 ts built.
            get_prop res ''results'' = Inr results \<and> get_first results = Inr r0 \<and>
            get_prop r0 ''tracks'' = Inr (JArr ts) \<and> tracks r = JArr built \<and>
            length built = length ts \<and>
            (\<forall>b \<in> set built. get_prop b ''requested_by'' = Inr rq))"
proof -
  from assms obtain results r0 t i u a e tsv built where
    a: "get_prop res ''results'' = Inr results" "get_first results = Inr r0"
       "get_prop r0 ''tracks'' = Inr tsv"
       "(case tsv of JArr xs \<Rightarrow> map_throwing (\<lambda>track. buildTrackData track rq) xs
         | _ \<Rightarrow> Inl TypeError) = Inr built"
       "r = \<lparr>type = PLAYLIST,
             playlist = Some \<lparr>title = t, playlist_id = i, url = u, author = a,
                              extractor = e\<rparr>,
             tracks = JArr built, requester = rq\<rparr>"
    unfolding playlist_branch_def and_then_eq_Inr by blast
  from a(4) obtain ts where ts: "tsv = JArr ts"
    "map_throwing (\<lambda>track. buildTrackData track rq) ts = Inr built"
    by (cases tsv) auto
  have "length built = length ts"
    using ts(2) by (rule map_throwing_length)
  moreover have "\<forall>b \<in> set built. get_prop b ''requested_by'' = Inr rq"
    using map_throwing_elements [OF ts(2)] buildTrackData_requested_by by blast
  ultimately show ?thesis
    using a ts(1) by auto
qed

lemma playlist_branch_on_playlist_response:
  "playlist_branch playlist_response (JStr ''userA'') =
   Inr \<lparr>type = PLAYLIST,
        playlist = Some \<lparr>title = JStr ''Mix'', playlist_id = JStr ''PL1'',
                         url = JStr ''https://example.org/list/PL1'',
                         author = JStr ''someone'', extractor = JStr ''youtube''\<rparr>,
        tracks =
          JArr [JObj [(''url'', JStr ''u1''), (''title'', JStr ''t1''),
                      (''thumbnail'', JUndefined), (''duration'', JUndefined),
                      (''author'', JUndefined), (''created_at'', JUndefined),
                      (''extractor'', JUndefined), (''requested_by'', JStr ''userA'')],
                JObj [(''url'', JStr ''u2''), (''title'', JStr ''t2''),
                      (''thumbnail'', JUndefined), (''duration'', JUndefined),
                      (''author'', JUndefined), (''created_at'', JUndefined),
                      (''extractor'', JUndefined), (''requested_by'', JStr ''userA'')]],
        requester = JStr ''userA''\<rparr>"
  by (simp add: playlist_response_def playlist_branch_def buildTrackData_def and_then_def)

text \<open>
  Claim C1 (as the code behaves). A playlist-shaped response should give a
  \<open>PLAYLIST\<close> result with one track per nested track, each carrying the requester.
  On \<open>playlist_response\<close>, whose only result entry has two nested tracks, \<open>search\<close>
  returns a \<open>SEARCH_RESULT\<close> instead: its tracks are the raw results (one entry, the
  playlist itself), and no \<open>requested_by\<close> is attached.
\<close>

theorem search_playlist_response_is_SEARCH_RESULT:
  "search (\<lambda>n method path. Inr playlist_response) (\<lambda>s. s)
     \<lparr>query = ''PL1'', SearchQuery.identifier = Some ''ytplaylist''\<rparr> (JStr ''userA'')
     (Manager_new \<lparr>ManagerOptions.node = Omitted, clientID = None\<rparr>) =
   Inr \<lparr>type = SEARCH_RESULT, playlist = None,
        tracks = JArr [JObj [(''title'', JStr ''Mix''), (''id'', JStr ''PL1''),
                        (''url'', JStr ''https://example.org/list/PL1''),
                        (''author'', JStr ''someone''), (''extractor'', JStr ''youtube''),
                        (''tracks'',
                         JArr [JObj [(''url'', JStr ''u1''), (''title'', JStr ''t1'')],
                               JObj [(''url'', JStr ''u2''), (''title'', JStr ''t2'')]])]],
        requester = JStr ''userA''\<rparr>"
  by (simp add: search_def Manager_new_def spread_defaults_def Node_new_def
      playlist_response_def resolveTrackData_def and_then_def js_or_def strict_eq_str_def)

text \<open>
  Claim C2. For every response whose \<open>results\<close> is a non-empty list,
  \<open>resolveTrackData\<close> returns a \<open>SEARCH_RESULT\<close> with that list attached unchanged,
  whatever the identifier is (absent included); and no response at all makes
  \<open>resolveTrackData\<close> return a \<open>PLAYLIST\<close>.
\<close>

theorem resolveTrackData_nonempty_SEARCH_RESULT:
  assumes "get_prop res ''results'' = Inr (JArr rs)" and "rs \<noteq> []"
  shows "resolveTrackData res rq =
           Inr \<lparr>type = SEARCH_RESULT, playlist = None, tracks = JArr rs, requester = rq\<rparr>
         \<and> (\<forall>res' rq' r. resolveTrackData res' rq' = Inr r \<longrightarrow> type r \<noteq> PLAYLIST)"
proof -
  obtain ident where i: "get_prop res ''identifier'' = Inr ident"
    using assms(1) by (cases res) auto
  have "resolveTrackData res rq =
           Inr \<lparr>type = SEARCH_RESULT, playlist = None, tracks = JArr rs, requester = rq\<rparr>"
    using assms i
    by (simp add: resolveTrackData_def and_then_Inr branch_test_always_true)
  then show ?thesis
    using resolveTrackData_never_PLAYLIST by blast
qed

theorem resolveTrackData_nonempty_SEARCH_RESULT_witness:
  "get_prop (JObj [(''identifier'', JStr ''ytplaylist''),
                   (''results'', JArr [JObj [(''url'', JStr ''u1''), (''title'', JStr ''t1'')]])])
     ''results'' = Inr (JArr [JObj [(''url'', JStr ''u1''), (''title'', JStr ''t1'')]])
   \<and> [JObj [(''url'', JStr ''u1''), (''title'', JStr ''t1'')]] \<noteq> []
   \<and> resolveTrackData
       (JObj [(''identifier'', JStr ''ytplaylist''),
              (''results'', JArr [JObj [(''url'', JStr ''u1''), (''title'', JStr ''t1'')]])])
       (JStr ''userA'') =
     Inr \<lparr>type = SEARCH_RESULT, playlist = None,
          tracks = JArr [JObj [(''url'', JStr ''u1''), (''title'', JStr ''t1'')]],
          requester = JStr ''userA''\<rparr>"
  using resolveTrackData_nonempty_SEARCH_RESULT
    [of "JObj [(''identifier'', JStr ''ytplaylist''),
               (''results'', JArr [JObj [(''url'', JStr ''u1''), (''title'', JStr ''t1'')]])]"
        "[JObj [(''url'', JStr ''u1''), (''title'', JStr ''t1'')]]" "JStr ''userA''"]
  by simp

text \<open>
  Claim C4. When the backend's response has an empty \<open>results\<close> list, \<open>search\<close>
  returns type \<open>NO_RESULT\<close>, an empty track sequence and the caller's requester,
  whatever the response's identifier is. A response was obtained, so the manager has
  its node and the request was answered with \<open>res\<close>.
\<close>

theorem search_empty_results_NO_RESULT:
  assumes "Manager.node this = Some n"
    and "makeRequest n ''GET'' (search_path encodeURIComponent q) = Inr res"
    and "get_prop res ''results'' = Inr (JArr [])"
  shows "resolveTrackData res rq =
           Inr \<lparr>type = NO_RESULT, playlist = None, tracks = JArr [], requester = rq\<rparr>
         \<and> search makeRequest encodeURIComponent q rq this =
           Inr \<lparr>type = NO_RESULT, playlist = None, tracks = JArr [], requester = rq\<rparr>"
  using assms by (simp add: search_def resolveTrackData_def and_then_Inr)

theorem search_empty_results_NO_RESULT_witness:
  "Manager.node (Manager_new \<lparr>ManagerOptions.node = Omitted, clientID = None\<rparr>) =
     Some \<lparr>Node.options = default_node, socket = None, connect_calls = 0\<rparr>
   \<and> get_prop (JObj [(''identifier'', JStr ''scsearch''), (''results'', JArr [])]) ''results''
       = Inr (JArr [])
   \<and> search (\<lambda>n method path. Inr (JObj [(''identifier'', JStr ''scsearch''), (''results'', JArr [])]))
       (\<lambda>s. s) \<lparr>query = ''nothing'', SearchQuery.identifier = None\<rparr> (JStr ''userA'')
       (Manager_new \<lparr>ManagerOptions.node = Omitted, clientID = None\<rparr>) =
     Inr \<lparr>type = NO_RESULT, playlist = None, tracks = JArr [], requester = JStr ''userA''\<rparr>"
  using search_empty_results_NO_RESULT
    [of "Manager_new \<lparr>ManagerOptions.node = Omitted, clientID = None\<rparr>"
        "\<lparr>Node.options = default_node, socket = None, connect_calls = 0\<rparr>"
        "\<lambda>n method path. Inr (JObj [(''identifier'', JStr ''scsearch''), (''results'', JArr [])])"
        "\<lambda>s. s" "\<lparr>query = ''nothing'', SearchQuery.identifier = None\<rparr>"
        "JObj [(''identifier'', JStr ''scsearch''), (''results'', JArr [])]" "JStr ''userA''"]
  by (simp add: Manager_new_def spread_defaults_def Node_new_def)

section \<open>The constructor\<close>

lemma Manager_new_fresh:
  "\<not> initiated (Manager_new opts) \<and> connects (Manager_new opts) = 0"
  by (simp add: Manager_new_def Node_new_def connects_def Let_def split: property.splits)

lemma Manager_new_node:
  "ManagerOptions.node opts \<noteq> Undefined_value \<Longrightarrow> Manager.node (Manager_new opts) \<noteq> None"
  by (simp add: Manager_new_def Node_new_def spread_defaults_def Let_def split: property.splits)

text \<open>
  Claim C6, as stated, at the documented node options: the caller supplies a node
  object without an identifier, and the stored node options carry no identifier, not
  the default one.
\<close>

theorem constructor_node_without_identifier_counterexample:
  "NodeOptions.identifier documented_node = None
   \<and> stored_node_identifier
       (Manager_new \<lparr>ManagerOptions.node = Given documented_node, clientID = None\<rparr>) = None
   \<and> stored_node_identifier
       (Manager_new \<lparr>ManagerOptions.node = Given documented_node, clientID = None\<rparr>)
       \<noteq> Some ''default''"
  by (simp add: stored_node_identifier_def Manager_new_def spread_defaults_def Node_new_def
      documented_node_def)

text \<open>
  Claim C6, amended. The stored node options are the defaults (identifier
  \<open>default\<close>, host \<open>localhost\<close>) when the caller's options have no \<open>node\<close> key. A
  node object that the caller supplies is stored as it is, so an identifier or host it
  omits stays unset; a \<open>node\<close> key with the value \<open>undefined\<close> leaves no node options.
\<close>

theorem constructor_node_defaults_when_node_omitted:
  "ManagerOptions.node (Manager.options (Manager_new opts)) =
     (case ManagerOptions.node opts of
        Omitted \<Rightarrow> Given default_node
      | Undefined_value \<Rightarrow> Undefined_value
      | Given n \<Rightarrow> Given n)
   \<and> stored_node_identifier (Manager_new opts) =
     (case ManagerOptions.node opts of
        Omitted \<Rightarrow> Some ''default''
      | Undefined_value \<Rightarrow> None
      | Given n \<Rightarrow> NodeOptions.identifier n)
   \<and> stored_node_host (Manager_new opts) =
     (case ManagerOptions.node opts of
        Omitted \<Rightarrow> Some ''localhost''
      | Undefined_value \<Rightarrow> None
      | Given n \<Rightarrow> host n)"
  by (simp add: stored_node_identifier_def stored_node_host_def Manager_new_def
      spread_defaults_def Node_new_def default_node_def Let_def split: property.splits)

section \<open>init\<close>

lemma init_initiated: "initiated this \<Longrightarrow> init c this = (Inr (), this)"
  by (simp add: init_def)

lemma init_returns_initiated:
  "fst (init c this) = Inr () \<Longrightarrow> initiated (snd (init c this))"
  by (auto simp: init_def Let_def split: option.splits if_splits)

lemma init_all_initiated: "initiated this \<Longrightarrow> init_all cs this = this"
  by (induction cs) (simp_all add: init_initiated)

text \<open>A call that throws has not reached \<open>connect\<close> and leaves the guard unset.\<close>

lemma init_throws_connects:
  "fst (init c this) \<noteq> Inr () \<Longrightarrow>
   \<not> initiated (snd (init c this)) \<and> connects (snd (init c this)) = connects this"
  by (auto simp: init_def Let_def connects_def split: option.splits if_splits)

lemma init_returns_connects:
  "\<not> initiated this \<Longrightarrow> fst (init c this) = Inr () \<Longrightarrow>
   connects (snd (init c this)) = Suc (connects this)"
  by (auto simp: init_def Let_def connects_def Node_connect_def split: option.splits if_splits)

lemma connects_init_all:
  "\<not> initiated this \<Longrightarrow> connects (init_all cs this) \<le> Suc (connects this)"
proof (induction cs arbitrary: this)
  case Nil
  then show ?case by simp
next
  case (Cons c cs)
  show ?case
  proof (cases "fst (init c this) = Inr ()")
    case True
    then have "init_all cs (snd (init c this)) = snd (init c this)"
      by (intro init_all_initiated init_returns_initiated)
    then show ?thesis
      using init_returns_connects [OF Cons.prems True] by simp
  next
    case False
    from init_throws_connects [OF False] Cons.IH [of "snd (init c this)"]
    show ?thesis by simp
  qed
qed

text \<open>
  Claim C5. After an \<open>init\<close> call that has returned, a second call, with any
  argument, returns without raising and makes no further call of \<open>connect\<close>. Over
  any sequence of \<open>init\<close> calls on a manager, from its construction on, \<open>connect\<close>
  is called at most once. The first call returns for every manager whose options did
  not set \<open>node\<close> to \<open>undefined\<close>.
\<close>

theorem init_connects_at_most_once:
  "(fst (init c1 this) = Inr () \<longrightarrow>
      fst (init c2 (snd (init c1 this))) = Inr () \<and>
      connects (snd (init c2 (snd (init c1 this)))) = connects (snd (init c1 this)))
   \<and> connects (init_all cs (Manager_new opts)) \<le> 1
   \<and> (ManagerOptions.node opts \<noteq> Undefined_value \<longrightarrow>
        fst (init c1 (Manager_new opts)) = Inr ())"
proof (intro conjI impI)
  assume "fst (init c1 this) = Inr ()"
  then have "init c2 (snd (init c1 this)) = (Inr (), snd (init c1 this))"
    by (intro init_initiated init_returns_initiated)
  then show "fst (init c2 (snd (init c1 this))) = Inr ()"
    and "connects (snd (init c2 (snd (init c1 this)))) = connects (snd (init c1 this))"
    by simp_all
next
  show "connects (init_all cs (Manager_new opts)) \<le> 1"
    using connects_init_all [of "Manager_new opts" cs] Manager_new_fresh [of opts] by simp
next
  assume "ManagerOptions.node opts \<noteq> Undefined_value"
  then show "fst (init c1 (Manager_new opts)) = Inr ()"
    using Manager_new_node [of opts] Manager_new_fresh [of opts]
    by (auto simp: init_def Let_def split: option.splits)
qed

theorem init_connects_at_most_once_witness:
  "fst (init (Some ''42'') (Manager_new \<lparr>ManagerOptions.node = Omitted, clientID = None\<rparr>)) = Inr ()
   \<and> fst (init (Some ''43'')
        (snd (init (Some ''42'') (Manager_new \<lparr>ManagerOptions.node = Omitted, clientID = None\<rparr>))))
      = Inr ()
   \<and> connects (snd (init (Some ''43'')
        (snd (init (Some ''42'') (Manager_new \<lparr>ManagerOptions.node = Omitted, clientID = None\<rparr>)))))
      = 1
   \<and> connects (init_all [Some ''42'', Some ''43'', None]
        (Manager_new \<lparr>ManagerOptions.node = Omitted, clientID = None\<rparr>)) \<le> 1"
  using init_connects_at_most_once
    [of "Some ''42''" "Manager_new \<lparr>ManagerOptions.node = Omitted, clientID = None\<rparr>"
        "Some ''43''" "[Some ''42'', Some ''43'', None]"
        "\<lparr>ManagerOptions.node = Omitted, clientID = None\<rparr>"]
  by (simp add: init_def Manager_new_def spread_defaults_def Node_new_def truthy_id_def
      connects_def Node_connect_def)

text \<open>
  Claim C10. After the first \<open>init\<close> call (one that returned), every later call
  returns the state it was given, and so does any sequence of later calls:
  \<open>initiated\<close> stays true, and \<open>options.clientID\<close> keeps what the first call left
  there, its own argument when that was truthy and the earlier value otherwise,
  whatever the later arguments are.
\<close>

theorem init_later_calls_change_nothing:
  assumes "\<not> initiated this" and "fst (init c1 this) = Inr ()"
  shows "init c2 (snd (init c1 this)) = (Inr (), snd (init c1 this))
       \<and> init_all cs (snd (init c1 this)) = snd (init c1 this)
       \<and> initiated (init_all cs (snd (init c1 this)))
       \<and> clientID (Manager.options (init_all cs (snd (init c1 this)))) =
           (if truthy_id c1 then c1 else clientID (Manager.options this))"
proof -
  have i: "initiated (snd (init c1 this))"
    using assms(2) by (rule init_returns_initiated)
  have a: "init_all cs (snd (init c1 this)) = snd (init c1 this)"
    using i by (rule init_all_initiated)
  have "clientID (Manager.options (snd (init c1 this))) =
           (if truthy_id c1 then c1 else clientID (Manager.options this))"
    using assms by (auto simp: init_def Let_def split: option.splits)
  with i a init_initiated [OF i] show ?thesis by simp
qed

theorem init_later_calls_change_nothing_witness:
  "\<not> initiated (Manager_new \<lparr>ManagerOptions.node = Omitted, clientID = None\<rparr>)
   \<and> fst (init (Some ''42'') (Manager_new \<lparr>ManagerOptions.node = Omitted, clientID = None\<rparr>)) = Inr ()
   \<and> clientID (Manager.options (init_all [Some ''43'', None, Some ''44'']
        (snd (init (Some ''42'') (Manager_new \<lparr>ManagerOptions.node = Omitted, clientID = None\<rparr>)))))
      = Some ''42''
   \<and> initiated (init_all [Some ''43'', None, Some ''44'']
        (snd (init (Some ''42'') (Manager_new \<lparr>ManagerOptions.node = Omitted, clientID = None\<rparr>))))"
  using init_later_calls_change_nothing
    [of "Manager_new \<lparr>ManagerOptions.node = Omitted, clientID = None\<rparr>" "Some ''42''"
        "Some ''43''" "[Some ''43'', None, Some ''44'']"]
  by (simp add: init_def Manager_new_def spread_defaults_def Node_new_def truthy_id_def)

section \<open>create\<close>

lemma create_existing:
  "players this (guild opts) = Some p \<Longrightarrow> create newPlayer opts this = (Inr p, this)"
  by (simp add: create_def)

lemma create_absent:
  "players this (guild opts) = None \<Longrightarrow> create newPlayer opts this = newPlayer opts this"
  by (simp add: create_def)

text \<open>
  Claim C3. With the constructor of \<open>Player\<close> as the spec describes it, two calls of
  \<open>create\<close> with options of the same guild return the same object: the first call
  returns an address \<open>p\<close> that is registered under the guild, and the second call
  returns \<open>p\<close> again and leaves the state, the object included, as it was, whatever
  its other options are. When the guild had no player, \<open>p\<close> is the new object, built
  from the first call's options.
\<close>

theorem create_twice_same_player:
  assumes "guild o2 = guild o1"
  shows "\<exists>p this1.
           create Player_new o1 this = (Inr p, this1) \<and>
           get (guild o1) this1 = Some p \<and>
           create Player_new o2 this1 = (Inr p, this1) \<and>
           (players this (guild o1) = None \<longrightarrow>
              p = length (player_objects this) \<and>
              player_objects this1 = player_objects this @ [\<lparr>player_options = o1\<rparr>])"
proof (cases "players this (guild o1)")
  case None
  let ?p = "length (player_objects this)"
  let ?this1 = "snd (Player_new o1 this)"
  have 1: "create Player_new o1 this = (Inr ?p, ?this1)"
    using None by (simp add: create_absent Player_new_def)
  have 2: "players ?this1 (guild o1) = Some ?p"
    by (simp add: Player_new_def)
  have 3: "create Player_new o2 ?this1 = (Inr ?p, ?this1)"
    using 2 assms by (simp add: create_existing)
  have 4: "player_objects ?this1 = player_objects this @ [\<lparr>player_options = o1\<rparr>]"
    by (simp add: Player_new_def)
  from 1 2 3 4 show ?thesis unfolding get_def by blast
next
  case (Some p)
  then have "create Player_new o1 this = (Inr p, this)"
    and "create Player_new o2 this = (Inr p, this)"
    using assms by (simp_all add: create_existing)
  with Some show ?thesis by (auto simp: get_def)
qed

theorem create_twice_same_player_witness:
  "guild \<lparr>guild = ''g1'', voiceChannel = ''v2''\<rparr> = guild \<lparr>guild = ''g1'', voiceChannel = ''v1''\<rparr>
   \<and> fst (create Player_new \<lparr>guild = ''g1'', voiceChannel = ''v1''\<rparr>
        (Manager_new \<lparr>ManagerOptions.node = Omitted, clientID = None\<rparr>)) = Inr 0
   \<and> fst (create Player_new \<lparr>guild = ''g1'', voiceChannel = ''v2''\<rparr>
        (snd (create Player_new \<lparr>guild = ''g1'', voiceChannel = ''v1''\<rparr>
          (Manager_new \<lparr>ManagerOptions.node = Omitted, clientID = None\<rparr>)))) = Inr 0
   \<and> player_objects
        (snd (create Player_new \<lparr>guild = ''g1'', voiceChannel = ''v2''\<rparr>
          (snd (create Player_new \<lparr>guild = ''g1'', voiceChannel = ''v1''\<rparr>
            (Manager_new \<lparr>ManagerOptions.node = Omitted, clientID = None\<rparr>)))))
      = [\<lparr>player_options = \<lparr>guild = ''g1'', voiceChannel = ''v1''\<rparr>\<rparr>]"
  using create_twice_same_player
    [of "\<lparr>guild = ''g1'', voiceChannel = ''v2''\<rparr>" "\<lparr>guild = ''g1'', voiceChannel = ''v1''\<rparr>"
        "Manager_new \<lparr>ManagerOptions.node = Omitted, clientID = None\<rparr>"]
  by (auto simp: create_def Player_new_def Manager_new_def spread_defaults_def Node_new_def)

text \<open>
  Claim C9. The body of \<open>create\<close> inserts nothing into \<open>players\<close>, whatever the
  constructor of \<open>Player\<close> is: when the guild has a player the state is returned as
  it was; when it has none, the result and the state are exactly the constructor's;
  so where the constructor leaves \<open>players\<close> alone, \<open>create\<close> leaves it alone, and
  any registration is the constructor's.
\<close>

theorem create_inserts_nothing:
  "(players this (guild opts) \<noteq> None \<longrightarrow> snd (create newPlayer opts this) = this)
   \<and> (players this (guild opts) = None \<longrightarrow>
        create newPlayer opts this = newPlayer opts this)
   \<and> (players (snd (newPlayer opts this)) = players this \<longrightarrow>
        players (snd (create newPlayer opts this)) = players this)"
  by (cases "players this (guild opts)") (simp_all add: create_def)

theorem create_inserts_nothing_witness:
  "players (Manager_new \<lparr>ManagerOptions.node = Omitted, clientID = None\<rparr>)
     (guild \<lparr>guild = ''g1'', voiceChannel = ''v1''\<rparr>) = None
   \<and> players (snd (Player_unregistered \<lparr>guild = ''g1'', voiceChannel = ''v1''\<rparr>
         (Manager_new \<lparr>ManagerOptions.node = Omitted, clientID = None\<rparr>)))
      = players (Manager_new \<lparr>ManagerOptions.node = Omitted, clientID = None\<rparr>)
   \<and> players (snd (create Player_unregistered \<lparr>guild = ''g1'', voiceChannel = ''v1''\<rparr>
         (Manager_new \<lparr>ManagerOptions.node = Omitted, clientID = None\<rparr>)))
      = players (Manager_new \<lparr>ManagerOptions.node = Omitted, clientID = None\<rparr>)
   \<and> create Player_unregistered \<lparr>guild = ''g1'', voiceChannel = ''v1''\<rparr>
         (Manager_new \<lparr>ManagerOptions.node = Omitted, clientID = None\<rparr>)
      = Player_unregistered \<lparr>guild = ''g1'', voiceChannel = ''v1''\<rparr>
         (Manager_new \<lparr>ManagerOptions.node = Omitted, clientID = None\<rparr>)"
  using create_inserts_nothing
    [of "Manager_new \<lparr>ManagerOptions.node = Omitted, clientID = None\<rparr>"
        "\<lparr>guild = ''g1'', voiceChannel = ''v1''\<rparr>" Player_unregistered]
  by (simp add: Player_unregistered_def Manager_new_def spread_defaults_def Node_new_def)

text \<open>
  With a constructor that registers nothing, two calls of \<open>create\<close> for one guild
  build two objects: the identity of the result rests on the constructor's insertion.
\<close>

lemma create_unregistered_twice_differs:
  "fst (create Player_unregistered \<lparr>guild = ''g1'', voiceChannel = ''v1''\<rparr>
        (Manager_new \<lparr>ManagerOptions.node = Omitted, clientID = None\<rparr>)) = Inr 0
   \<and> fst (create Player_unregistered \<lparr>guild = ''g1'', voiceChannel = ''v1''\<rparr>
        (snd (create Player_unregistered \<lparr>guild = ''g1'', voiceChannel = ''v1''\<rparr>
          (Manager_new \<lparr>ManagerOptions.node = Omitted, clientID = None\<rparr>)))) = Inr 1"
  by (simp add: create_def Player_unregistered_def Manager_new_def spread_defaults_def
      Node_new_def)

section \<open>updateVoiceState\<close>

lemma get_prop_string_truthy: "get_prop data k = Inr (JStr s) \<Longrightarrow> truthy data"
  by (cases data) (auto split: if_splits)

text \<open>
  Claim C7. For every event whose \<open>t\<close> is \<open>VOICE_STATE_UPDATE\<close>, and likewise
  \<open>VOICE_SERVER_UPDATE\<close>, \<open>updateVoiceState\<close> writes exactly one frame to the node's
  socket, the serialization of the whole event, and changes nothing else. The node and
  its socket are there to be written to.
\<close>

theorem updateVoiceState_forwards_voice_events:
  assumes "get_prop data ''t'' = Inr (JStr tag)"
    and "tag = ''VOICE_STATE_UPDATE'' \<or> tag = ''VOICE_SERVER_UPDATE''"
    and "Manager.node this = Some n"
    and "socket n = Some s"
  shows "updateVoiceState stringify data this =
           (Inr (),
            this\<lparr>Manager.node :=
                   Some (n\<lparr>socket := Some (s\<lparr>sent := sent s @ [stringify data]\<rparr>)\<rparr>)\<rparr>)
         \<and> frames_sent (snd (updateVoiceState stringify data this)) =
             frames_sent this @ [stringify data]"
proof -
  have t: "truthy data"
    using assms(1) by (rule get_prop_string_truthy)
  have s: "socket_send (stringify data) this =
           (Inr (),
            this\<lparr>Manager.node :=
                   Some (n\<lparr>socket := Some (s\<lparr>sent := sent s @ [stringify data]\<rparr>)\<rparr>)\<rparr>)"
    using assms(3,4) by (simp add: socket_send_def)
  have u: "updateVoiceState stringify data this = socket_send (stringify data) this"
    using assms(2)
  proof
    assume "tag = ''VOICE_STATE_UPDATE''"
    then show ?thesis
      using t assms(1) by (simp add: updateVoiceState_def array_includes_def js_or_def s)
  next
    assume "tag = ''VOICE_SERVER_UPDATE''"
    then show ?thesis
      using t assms(1) by (simp add: updateVoiceState_def array_includes_def js_or_def s)
  qed
  show ?thesis
    using assms(3,4) by (simp add: u s frames_sent_def)
qed

theorem updateVoiceState_forwards_voice_events_witness:
  "get_prop voice_state_event ''t'' = Inr (JStr ''VOICE_STATE_UPDATE'')
   \<and> Manager.node connected_manager =
       Some \<lparr>Node.options = default_node, socket = Some \<lparr>sent = []\<rparr>, connect_calls = 1\<rparr>
   \<and> fst (updateVoiceState (\<lambda>v. ''frame'') voice_state_event connected_manager) = Inr ()
   \<and> frames_sent (snd (updateVoiceState (\<lambda>v. ''frame'') voice_state_event connected_manager))
       = [''frame'']"
  using updateVoiceState_forwards_voice_events
    [of voice_state_event "''VOICE_STATE_UPDATE''" connected_manager
        "\<lparr>Node.options = default_node, socket = Some \<lparr>sent = []\<rparr>, connect_calls = 1\<rparr>"
        "\<lparr>sent = []\<rparr>" "\<lambda>v. ''frame''"]
  by (simp add: voice_state_event_def connected_manager_def init_def Manager_new_def
      spread_defaults_def Node_new_def Node_connect_def truthy_id_def frames_sent_def)

text \<open>
  Claim C8. For every event whose \<open>t\<close> is neither \<open>VOICE_SERVER_UPDATE\<close> nor
  \<open>VOICE_STATE_UPDATE\<close> (an absent \<open>t\<close>, a \<open>t\<close> that is not a string and an event
  that is \<open>null\<close> or \<open>undefined\<close> included), \<open>updateVoiceState\<close> returns without
  error and leaves the whole state, the node's socket included, as it was.
\<close>

theorem updateVoiceState_ignores_other_events:
  assumes "get_prop data ''t'' \<noteq> Inr (JStr ''VOICE_SERVER_UPDATE'')"
    and "get_prop data ''t'' \<noteq> Inr (JStr ''VOICE_STATE_UPDATE'')"
  shows "updateVoiceState stringify data this = (Inr (), this)"
proof (cases "truthy data")
  case False
  then show ?thesis by (simp add: updateVoiceState_def)
next
  case True
  then obtain t where t: "get_prop data ''t'' = Inr t"
    by (cases data) auto
  with assms have "\<not> array_includes [''VOICE_SERVER_UPDATE'', ''VOICE_STATE_UPDATE'']
                      (js_or t (JStr []))"
    by (auto simp: array_includes_def js_or_def)
  with True t show ?thesis by (simp add: updateVoiceState_def)
qed

theorem updateVoiceState_ignores_other_events_witness:
  "get_prop guild_create_event ''t'' \<noteq> Inr (JStr ''VOICE_SERVER_UPDATE'')
   \<and> get_prop guild_create_event ''t'' \<noteq> Inr (JStr ''VOICE_STATE_UPDATE'')
   \<and> updateVoiceState (\<lambda>v. ''frame'') guild_create_event connected_manager
       = (Inr (), connected_manager)
   \<and> updateVoiceState (\<lambda>v. ''frame'') (JObj []) connected_manager
       = (Inr (), connected_manager)"
  using updateVoiceState_ignores_other_events
    [of guild_create_event "\<lambda>v. ''frame''" connected_manager]
    updateVoiceState_ignores_other_events
    [of "JObj []" "\<lambda>v. ''frame''" connected_manager]
  by (simp add: guild_create_event_def)

end
